theory Spec2Isabelle
  imports Main "HOL-Library.Sublist"
begin

section \<open>Python values, exceptions and strings\<close>

text \<open>
  The values the session state dictionary of \<^verbatim>\<open>adk_rlm_minimal\<close> holds: strings,
  integers, booleans, \<^verbatim>\<open>None\<close>, lists and string-keyed dictionaries. A string
  is a list of characters, and a character is a code point below 256 (the Latin-1 range),
  not a byte of an encoding: \<open>CHR 0xA0\<close> is the no-break space U+00A0.
\<close>

datatype pyval =
    VNone
  | VBool bool
  | VInt int
  | VStr string
  | VList "pyval list"
  | VDict "(string \<times> pyval) list"

text \<open>
  An exception is its class and the text \<^verbatim>\<open>str(e)\<close>. \<open>NonException\<close> stands for the
  classes that derive from \<^verbatim>\<open>BaseException\<close> but not from \<^verbatim>\<open>Exception\<close>
  (\<^verbatim>\<open>SystemExit\<close>, \<^verbatim>\<open>KeyboardInterrupt\<close>, \<^verbatim>\<open>GeneratorExit\<close>): an
  \<^verbatim>\<open>except Exception\<close> clause does not catch them.
\<close>

datatype exn_class =
    ValueError | AttributeError | TypeError | NameError | ZeroDivisionError
  | SyntaxError | PlainException | NonException

datatype exn = Exn (exn_class: exn_class) (exn_str: string)

definition is_Exception :: "exn \<Rightarrow> bool" where
  "is_Exception e = (exn_class e \<noteq> NonException)"

abbreviation NL :: char where
  "NL \<equiv> CHR 0x0A"

abbreviation SQ :: char where
  "SQ \<equiv> CHR 0x27"

abbreviation DQ :: char where
  "DQ \<equiv> CHR 0x22"

section \<open>repl\_state.py\<close>

datatype REPLState =
  IDLE | CODE_PENDING_REVIEW | CODE_APPROVED | CODE_REJECTED | EXECUTING | COMPLETE

fun REPLState_value :: "REPLState \<Rightarrow> string" where
  "REPLState_value IDLE = ''idle''"
| "REPLState_value CODE_PENDING_REVIEW = ''code_pending_review''"
| "REPLState_value CODE_APPROVED = ''code_approved''"
| "REPLState_value CODE_REJECTED = ''code_rejected''"
| "REPLState_value EXECUTING = ''executing''"
| "REPLState_value COMPLETE = ''complete''"

text \<open>
  \<^verbatim>\<open>REPLState(x)\<close>, the enumeration's lookup by value: \<open>None\<close> is the \<^verbatim>\<open>ValueError\<close>
  that Python raises for anything that is not one of the six value strings (a string of
  another content, or a value that is no string at all).
\<close>

definition REPLState_of_str :: "string \<Rightarrow> REPLState option" where
  "REPLState_of_str s =
     (if s = ''idle'' then Some IDLE
      else if s = ''code_pending_review'' then Some CODE_PENDING_REVIEW
      else if s = ''code_approved'' then Some CODE_APPROVED
      else if s = ''code_rejected'' then Some CODE_REJECTED
      else if s = ''executing'' then Some EXECUTING
      else if s = ''complete'' then Some COMPLETE
      else None)"

fun REPLState_call :: "pyval \<Rightarrow> REPLState option" where
  "REPLState_call (VStr s) = REPLState_of_str s"
| "REPLState_call _ = None"

datatype SecurityLevel = NONE | BASIC | STRICT

fun SecurityLevel_value :: "SecurityLevel \<Rightarrow> string" where
  "SecurityLevel_value NONE = ''none''"
| "SecurityLevel_value BASIC = ''basic''"
| "SecurityLevel_value STRICT = ''strict''"


definition REPL_STATE_KEY :: string where "REPL_STATE_KEY = ''repl_state''"
definition REPL_LOCALS_KEY :: string where "REPL_LOCALS_KEY = ''repl_locals''"
definition REPL_GLOBALS_KEY :: string where "REPL_GLOBALS_KEY = ''repl_globals''"
definition REPL_CONTEXT_KEY :: string where "REPL_CONTEXT_KEY = ''repl_context''"
definition REPL_ITERATION_KEY :: string where "REPL_ITERATION_KEY = ''repl_iteration''"
definition REPL_MAX_ITERATIONS_KEY :: string where
  "REPL_MAX_ITERATIONS_KEY = ''repl_max_iterations''"
definition REPL_PENDING_CODE_KEY :: string where
  "REPL_PENDING_CODE_KEY = ''temp:repl_pending_code''"
definition REPL_LAST_OUTPUT_KEY :: string where "REPL_LAST_OUTPUT_KEY = ''repl_last_output''"
definition REPL_LAST_ERROR_KEY :: string where "REPL_LAST_ERROR_KEY = ''repl_last_error''"
definition REPL_FINAL_ANSWER_KEY :: string where "REPL_FINAL_ANSWER_KEY = ''repl_final_answer''"
definition REPL_CODE_HISTORY_KEY :: string where "REPL_CODE_HISTORY_KEY = ''repl_code_history''"
definition REPL_SECURITY_LEVEL_KEY :: string where
  "REPL_SECURITY_LEVEL_KEY = ''repl_security_level''"
definition REPL_QUERY_KEY :: string where "REPL_QUERY_KEY = ''repl_query''"
definition REPL_ARTIFACT_ENABLED_KEY :: string where
  "REPL_ARTIFACT_ENABLED_KEY = ''repl_artifact_enabled''"

lemmas key_defs =
  REPL_STATE_KEY_def REPL_LOCALS_KEY_def REPL_GLOBALS_KEY_def REPL_CONTEXT_KEY_def
  REPL_ITERATION_KEY_def REPL_MAX_ITERATIONS_KEY_def REPL_PENDING_CODE_KEY_def
  REPL_LAST_OUTPUT_KEY_def REPL_LAST_ERROR_KEY_def REPL_FINAL_ANSWER_KEY_def
  REPL_CODE_HISTORY_KEY_def REPL_SECURITY_LEVEL_KEY_def REPL_QUERY_KEY_def
  REPL_ARTIFACT_ENABLED_KEY_def

type_synonym state_dict = "string \<rightharpoonup> pyval"

subsection \<open>The transition table\<close>

text \<open>
  The dictionary that the \<^verbatim>\<open>default_factory\<close> of the dataclass field
  \<^verbatim>\<open>VALID_TRANSITIONS\<close> builds (lines 101 to 112), as an association list from a
  state to the collection of its permitted targets.
\<close>

type_synonym transition_table = "(REPLState \<times> REPLState list) list"

definition VALID_TRANSITIONS :: transition_table where
  "VALID_TRANSITIONS =
     [(IDLE, [CODE_PENDING_REVIEW, COMPLETE]),
      (CODE_PENDING_REVIEW, [CODE_APPROVED, CODE_REJECTED, COMPLETE]),
      (CODE_APPROVED, [EXECUTING, COMPLETE]),
      (CODE_REJECTED, [IDLE, COMPLETE]),
      (EXECUTING, [IDLE, COMPLETE]),
      (COMPLETE, [])]"

text \<open>
  What the attribute access \<^verbatim>\<open>cls.VALID_TRANSITIONS\<close> evaluates to inside the class
  methods. \<^verbatim>\<open>REPLStateManager\<close> is decorated with \<^verbatim>\<open>@dataclass\<close> and the table is
  declared as \<^verbatim>\<open>field(default_factory=...)\<close>. For a field that has no plain default
  the decorator deletes the class attribute, so the table exists only on instances
  (built by \<^verbatim>\<open>__init__\<close>); on the class object, which is what every
  \<^verbatim>\<open>@classmethod\<close> receives as \<^verbatim>\<open>cls\<close>, the lookup raises
  \<^verbatim>\<open>AttributeError\<close>.

  The methods below take the outcome of that lookup as their first argument \<open>vt\<close>, so
  that the program as shipped (\<open>cls_VALID_TRANSITIONS\<close>) and the table its author
  wrote (\<open>Inr VALID_TRANSITIONS\<close>) can both be reasoned about.
\<close>

definition cls_VALID_TRANSITIONS :: "exn + transition_table" where
  "cls_VALID_TRANSITIONS =
     Inl (Exn AttributeError
            (''type object 'REPLStateManager' has no attribute 'VALID_TRANSITIONS'' @ [SQ]))"

subsection \<open>REPLStateManager\<close>

definition can_transition ::
  "exn + transition_table \<Rightarrow> REPLState \<Rightarrow> REPLState \<Rightarrow> exn + bool" where
  "can_transition vt from_state to_state =
     (case vt of
        Inl e \<Rightarrow> Inl e
      | Inr table \<Rightarrow>
          (let valid_targets = (case map_of table from_state of None \<Rightarrow> [] | Some ts \<Rightarrow> ts)
           in Inr (to_state \<in> set valid_targets)))"

definition get_state_from_dict :: "state_dict \<Rightarrow> REPLState" where
  "get_state_from_dict state_dict =
     (let state_str = (case state_dict REPL_STATE_KEY of
                         None \<Rightarrow> VStr (REPLState_value IDLE) | Some v \<Rightarrow> v)
      in case REPLState_call state_str of Some s \<Rightarrow> s | None \<Rightarrow> IDLE)"


text \<open>
  \<^verbatim>\<open>transition_to\<close> mutates the dictionary in place, so the model returns the
  dictionary next to the outcome: after a raise it is the dictionary as it was.
\<close>

definition transition_to ::
  "exn + transition_table \<Rightarrow> state_dict \<Rightarrow> REPLState \<Rightarrow> bool \<Rightarrow> (exn + bool) \<times> state_dict"
  where
  "transition_to vt state_dict new_state validate =
     (let current_state = get_state_from_dict state_dict;
          written = state_dict(REPL_STATE_KEY \<mapsto> VStr (REPLState_value new_state))
      in if validate then
           (case can_transition vt current_state new_state of
              Inl e \<Rightarrow> (Inl e, state_dict)
            | Inr ok \<Rightarrow>
                if \<not> ok then
                  (Inl (Exn ValueError
                          (''Invalid state transition from '' @ REPLState_value current_state
                             @ '' to '' @ REPLState_value new_state)),
                   state_dict)
                else (Inr True, written))
         else (Inr True, written))"









definition is_complete :: "state_dict \<Rightarrow> bool" where
  "is_complete state_dict = (get_state_from_dict state_dict = COMPLETE)"

section \<open>String operations of Python used by repl\_env.py\<close>

text \<open>
  \<^verbatim>\<open>s.split(c)\<close> for a one-character separator: never empty, one more piece than there
  are separators.
\<close>

fun py_split :: "char \<Rightarrow> string \<Rightarrow> string list" where
  "py_split c [] = [[]]"
| "py_split c (x # xs) =
     (if x = c then [] # py_split c xs
      else (let r = py_split c xs in (x # hd r) # tl r))"

fun py_join :: "string \<Rightarrow> string list \<Rightarrow> string" where
  "py_join sep [] = []"
| "py_join sep [x] = x"
| "py_join sep (x # y # ys) = x @ sep @ py_join sep (y # ys)"

text \<open>
  The characters that \<^verbatim>\<open>str.strip()\<close> removes, that is those for which
  \<^verbatim>\<open>str.isspace\<close> holds: among the code points below 256 these are the space, U+0009 to
  U+000D, U+001C to U+001F, U+0085 and U+00A0.
\<close>

definition is_space :: "char \<Rightarrow> bool" where
  "is_space c = (c \<in> set [CHR '' '', CHR 0x09, CHR 0x0A, CHR 0x0B, CHR 0x0C, CHR 0x0D,
                           CHR 0x1C, CHR 0x1D, CHR 0x1E, CHR 0x1F, CHR 0x85, CHR 0xA0])"

definition py_strip :: "string \<Rightarrow> string" where
  "py_strip s = rev (dropWhile is_space (rev (dropWhile is_space s)))"

text \<open>\<^verbatim>\<open>s.startswith(t)\<close> for a tuple \<open>t\<close> of prefixes.\<close>

definition startswith_any :: "string list \<Rightarrow> string \<Rightarrow> bool" where
  "startswith_any ts s = list_ex (\<lambda>t. prefix t s) ts"

text \<open>\<^verbatim>\<open>s.find(c)\<close> when \<open>c\<close> occurs in \<open>s\<close>: the index of its first occurrence.\<close>

definition py_find :: "char \<Rightarrow> string \<Rightarrow> nat" where
  "py_find c s = length (takeWhile (\<lambda>x. x \<noteq> c) s)"

section \<open>repl\_env.py: OutputRouter\<close>

record OutputRouter =
  base_lm_buffer :: string
  sub_lm_buffer :: string
  current_target :: string

definition OutputRouter_init :: OutputRouter where
  "OutputRouter_init = \<lparr>base_lm_buffer = [], sub_lm_buffer = [], current_target = ''base''\<rparr>"

definition set_target :: "string \<Rightarrow> OutputRouter \<Rightarrow> OutputRouter" where
  "set_target target r = r\<lparr>current_target := target\<rparr>"

definition get_buffer :: "string option \<Rightarrow> OutputRouter \<Rightarrow> string" where
  "get_buffer target r =
     (let target = (case target of None \<Rightarrow> current_target r | Some t \<Rightarrow> t)
      in if target = ''base'' then base_lm_buffer r else sub_lm_buffer r)"

definition clear_buffer :: "string option \<Rightarrow> OutputRouter \<Rightarrow> OutputRouter" where
  "clear_buffer target r =
     (let target = (case target of None \<Rightarrow> current_target r | Some t \<Rightarrow> t)
      in if target = ''base'' then r\<lparr>base_lm_buffer := []\<rparr> else r\<lparr>sub_lm_buffer := []\<rparr>)"

text \<open>\<^verbatim>\<open>OutputRouter.write\<close>.\<close>

definition router_write :: "string \<Rightarrow> OutputRouter \<Rightarrow> OutputRouter" where
  "router_write text r =
     (if current_target r = ''base'' then r\<lparr>base_lm_buffer := base_lm_buffer r @ text\<rparr>
      else r\<lparr>sub_lm_buffer := sub_lm_buffer r @ text\<rparr>)"

text \<open>
  The context manager \<^verbatim>\<open>redirect\<close>. The body of the \<^verbatim>\<open>with\<close> block is any
  computation on the router that ends normally (\<open>Inr\<close>) or by raising (\<open>Inl\<close>); the
  \<^verbatim>\<open>finally\<close> clause runs on both exits, and the exception, if any, propagates.
\<close>

definition redirect ::
  "string \<Rightarrow> (OutputRouter \<Rightarrow> (exn + 'a) \<times> OutputRouter) \<Rightarrow> OutputRouter
     \<Rightarrow> (exn + 'a) \<times> OutputRouter" where
  "redirect target body r =
     (let old_target = current_target r;
          (outcome, r') = body (set_target target r)
      in (outcome, set_target old_target r'))"

section \<open>repl\_env.py: SecureInteractiveConsole\<close>

subsection \<open>check\_code\_security\<close>

definition dangerous_patterns :: "(string \<times> string) list" where
  "dangerous_patterns =
     [(''import os'', ''os module import blocked''),
      (''import subprocess'', ''subprocess module import blocked''),
      (''import sys'', ''sys module import blocked for security''),
      (''__import__('os')'', ''dynamic os import blocked''),
      (''__import__('subprocess')'', ''dynamic subprocess import blocked''),
      (''eval('', ''eval() is blocked''),
      (''exec('', ''exec() is blocked''),
      (''compile('', ''compile() is blocked''),
      (''open('/'', ''absolute path file access restricted''),
      (''os.system'', ''os.system() is blocked''),
      (''subprocess.'', ''subprocess operations blocked'')]"

text \<open>
  The \<^verbatim>\<open>for pattern, message in dangerous_patterns\<close> loop, with the statement after
  it. \<^verbatim>\<open>pattern in code_str\<close> on strings is the contiguous-sublist test.
\<close>

fun scan_patterns :: "(string \<times> string) list \<Rightarrow> string \<Rightarrow> bool \<times> string" where
  "scan_patterns [] code_str = (True, ''Code passed security checks'')"
| "scan_patterns ((pattern, message) # rest) code_str =
     (if sublist pattern code_str then (False, message) else scan_patterns rest code_str)"

definition check_code_security :: "SecurityLevel \<Rightarrow> string \<Rightarrow> bool \<times> string" where
  "check_code_security level code_str =
     (if level = NONE then (True, ''Security checks disabled'')
      else if level \<in> {BASIC, STRICT} then scan_patterns dangerous_patterns code_str
      else (True, ''Code passed security checks''))"

subsection \<open>\_is\_expression\<close>

definition statement_starters :: "string list" where
  "statement_starters =
     [''import '', ''from '', ''def '', ''class '', ''if '', ''for '', ''while '',
      ''try:'', ''with '', ''return '', ''yield '', ''break'', ''continue'', ''pass'',
      ''raise '', ''assert '', ''del '', ''global '', ''nonlocal '']"

definition is_expression :: "string \<Rightarrow> bool" where
  "is_expression line =
     (if startswith_any statement_starters line then False
      else if CHR ''='' \<in> set (hd (py_split (CHR ''#'') line)) then
        (let eq_idx = py_find (CHR ''='') line
         in if eq_idx > 0 \<and> line ! (eq_idx - 1) \<in> set ''!<>='' then True
            else if eq_idx > 0 \<and> int eq_idx < int (length line) - 1
                      \<and> line ! (eq_idx + 1) = CHR ''='' then True
            else False)
      else if suffix '':'' line then False
      else if prefix ''print('' line then False
      else True)"

section \<open>The transition table as the specification words it\<close>

text \<open>
  The allowed-transition table as the specification lists it, written independently of
  \<open>VALID_TRANSITIONS\<close> so that the two can be compared.
\<close>

fun spec_allowed :: "REPLState \<Rightarrow> REPLState set" where
  "spec_allowed IDLE = {CODE_PENDING_REVIEW, COMPLETE}"
| "spec_allowed CODE_PENDING_REVIEW = {CODE_APPROVED, CODE_REJECTED, COMPLETE}"
| "spec_allowed CODE_APPROVED = {EXECUTING, COMPLETE}"
| "spec_allowed CODE_REJECTED = {IDLE, COMPLETE}"
| "spec_allowed EXECUTING = {IDLE, COMPLETE}"
| "spec_allowed COMPLETE = {}"

section \<open>Auxiliary definitions for the statements\<close>

text \<open>The submission of the end-to-end scenario: two lines, an import and a shell call.\<close>

definition os_system_code :: string where
  \<open>os_system_code = ''import os'' @ [NL] @ ''os.system("ls")''\<close>

text \<open>The part of a line before its first \<open>#\<close>: \<^verbatim>\<open>line.split('#')[0]\<close>.\<close>

definition before_comment :: "string \<Rightarrow> string" where
  "before_comment line = takeWhile (\<lambda>c. c \<noteq> CHR ''#'') line"

text \<open>
  The specification's test on an \<open>=\<close> sign, applied to the first one in the line: the
  character before it or after it makes it one of \<open>==\<close>, \<open>!=\<close>, \<open><=\<close>, \<open>>=\<close>.
\<close>

definition spec_eq_is_comparison :: "string \<Rightarrow> bool" where
  "spec_eq_is_comparison line =
     (let i = py_find (CHR ''='') line
      in (0 < i \<and> line ! (i - 1) \<in> set ''!<>'')
         \<or> (i + 1 < length line \<and> line ! (i + 1) = CHR ''=''))"

text \<open>A body for \<open>redirect\<close> that writes some text and then raises.\<close>

definition faulty_callback :: "OutputRouter \<Rightarrow> (exn + unit) \<times> OutputRouter" where
  "faulty_callback r =
     (Inl (Exn PlainException ''callback failed''), router_write ''partial'' r)"

section \<open>repl\_env.py: executing a submission\<close>

subsection \<open>The Python interpreter as a parameter\<close>

text \<open>
  \<^verbatim>\<open>execute_code\<close> hands strings to the built-ins \<^verbatim>\<open>exec\<close> and \<^verbatim>\<open>eval\<close>. What
  those do is the Python language, not this repository, so the model takes them as
  parameters. A frame is what executed code can change: the namespace
  \<^verbatim>\<open>self.locals\<close> and the two buffers that \<^verbatim>\<open>_capture_output\<close> installs as
  \<^verbatim>\<open>sys.stdout\<close> and \<^verbatim>\<open>sys.stderr\<close>.
\<close>

record 'ns frame =
  frame_locals :: 'ns
  stdout_buffer :: string
  stderr_buffer :: string

text \<open>
  \<open>py_exec code fr\<close> is \<^verbatim>\<open>exec(code, self.locals, self.locals)\<close>: the exception it
  raises, if any, and the frame it leaves. \<open>py_eval\<close> is \<^verbatim>\<open>eval\<close> likewise, with
  the value on a normal return. \<open>py_is_None\<close> and \<open>py_repr\<close> are \<^verbatim>\<open>is None\<close>
  and \<^verbatim>\<open>repr\<close> on such a value. The last four fields describe the namespace for
  \<^verbatim>\<open>_safe_locals_snapshot\<close>: its items in order, whether \<^verbatim>\<open>json.dumps\<close> accepts a
  value, the value as it is stored, and the name of its type.
\<close>

record ('ns, 'v) python =
  py_exec :: "string \<Rightarrow> 'ns frame \<Rightarrow> exn option \<times> 'ns frame"
  py_eval :: "string \<Rightarrow> 'ns frame \<Rightarrow> (exn + 'v) \<times> 'ns frame"
  py_is_None :: "'v \<Rightarrow> bool"
  py_repr :: "'v \<Rightarrow> string"
  py_items :: "'ns \<Rightarrow> (string \<times> 'v) list"
  py_json_ok :: "'v \<Rightarrow> bool"
  py_value :: "'v \<Rightarrow> pyval"
  py_type_name :: "'v \<Rightarrow> string"

text \<open>\<^verbatim>\<open>print(s)\<close> while the capture is installed: the text and a newline.\<close>

definition py_print :: "string \<Rightarrow> 'ns frame \<Rightarrow> 'ns frame" where
  "py_print s fr = fr\<lparr>stdout_buffer := stdout_buffer fr @ s @ [NL]\<rparr>"

subsection \<open>SecureInteractiveConsole\<close>

record 'ns console =
  security_level :: SecurityLevel
  console_locals :: 'ns

text \<open>
  \<^verbatim>\<open>REPLResult\<close>. The field \<^verbatim>\<open>execution_time\<close> is a difference of wall-clock
  readings and is left out.
\<close>

record REPLResult =
  stdout :: string
  stderr :: string
  locals_snapshot :: pyval
  success :: bool

definition dict_locals :: "('ns, 'v) python \<Rightarrow> 'ns \<Rightarrow> pyval" where
  "dict_locals py ns = VDict (map (\<lambda>(key, v). (key, py_value py v)) (py_items py ns))"

definition safe_locals_snapshot :: "('ns, 'v) python \<Rightarrow> 'ns \<Rightarrow> pyval" where
  "safe_locals_snapshot py ns =
     VDict (map (\<lambda>(key, v).
                   (key, if py_json_ok py v then py_value py v
                         else VStr (''<'' @ py_type_name py v @ ''>'')))
              (filter (\<lambda>(key, v). \<not> (prefix ''_'' key \<or> key = ''__builtins__''))
                 (py_items py ns)))"

definition is_import_line :: "string \<Rightarrow> bool" where
  "is_import_line line =
     (let stripped = py_strip line
      in startswith_any [''import '', ''from ''] stripped \<and> \<not> prefix ''#'' stripped)"

definition is_non_comment_line :: "string \<Rightarrow> bool" where
  "is_non_comment_line line = (py_strip line \<noteq> [] \<and> \<not> prefix ''#'' (py_strip line))"

text \<open>
  The loop that looks for the last line: \<open>i\<close> is the running index, \<open>idx\<close> the value
  of \<^verbatim>\<open>last_line_idx\<close>, which starts at \<open>-1\<close>.
\<close>

fun find_last_line_idx :: "string \<Rightarrow> string list \<Rightarrow> nat \<Rightarrow> int \<Rightarrow> int" where
  "find_last_line_idx last_line [] i idx = idx"
| "find_last_line_idx last_line (line # rest) i idx =
     find_last_line_idx last_line rest (i + 1)
       (if py_strip line = last_line then int i else idx)"

text \<open>Lines 379 to 382: evaluate the last line and print a result that is not \<^verbatim>\<open>None\<close>.\<close>

definition eval_last_line ::
  "('ns, 'v) python \<Rightarrow> string \<Rightarrow> 'ns frame \<Rightarrow> exn option \<times> 'ns frame" where
  "eval_last_line py last_line fr =
     (case py_eval py last_line fr of
        (Inl e, fr') \<Rightarrow> (Some e, fr')
      | (Inr result, fr') \<Rightarrow>
          (None, if \<not> py_is_None py result then py_print (py_repr py result) fr' else fr'))"

text \<open>Lines 367 to 382, the body of the inner \<^verbatim>\<open>try\<close>.\<close>

definition first_attempt ::
  "('ns, 'v) python \<Rightarrow> string list \<Rightarrow> string list \<Rightarrow> string \<Rightarrow> 'ns frame
     \<Rightarrow> exn option \<times> 'ns frame" where
  "first_attempt py other_lines non_comment_lines last_line fr =
     (let (raised, fr1) =
            (if length non_comment_lines > 1 then
               (let last_line_idx = find_last_line_idx last_line other_lines 0 (- 1)
                in if last_line_idx > 0
                   then py_exec py (py_join [NL] (take (nat last_line_idx) other_lines)) fr
                   else (None, fr))
             else (None, fr))
      in case raised of
           Some e \<Rightarrow> (Some e, fr1)
         | None \<Rightarrow> eval_last_line py last_line fr1)"

text \<open>
  Lines 352 to 387. The inner \<^verbatim>\<open>except Exception\<close> catches what the first attempt
  raises and executes the whole of \<^verbatim>\<open>other_code\<close>, on the frame as the failed attempt
  left it.
\<close>

definition run_other_code ::
  "('ns, 'v) python \<Rightarrow> string list \<Rightarrow> 'ns frame \<Rightarrow> exn option \<times> 'ns frame" where
  "run_other_code py other_lines fr =
     (let other_code = py_join [NL] other_lines;
          non_comment_lines = filter is_non_comment_line other_lines
      in if non_comment_lines \<noteq> [] then
           (let last_line = py_strip (last non_comment_lines)
            in if is_expression last_line then
                 (case first_attempt py other_lines non_comment_lines last_line fr of
                    (None, fr1) \<Rightarrow> (None, fr1)
                  | (Some e, fr1) \<Rightarrow>
                      if is_Exception e then py_exec py other_code fr1 else (Some e, fr1))
               else py_exec py other_code fr)
         else (None, fr))"

text \<open>Lines 334 to 387, the body of the outer \<^verbatim>\<open>try\<close>.\<close>

definition run_body ::
  "('ns, 'v) python \<Rightarrow> string \<Rightarrow> 'ns frame \<Rightarrow> exn option \<times> 'ns frame" where
  "run_body py code_str fr =
     (let lines = py_split NL code_str;
          import_lines = filter is_import_line lines;
          other_lines = filter (\<lambda>line. \<not> is_import_line line) lines;
          (raised, fr1) =
            (if import_lines \<noteq> [] then py_exec py (py_join [NL] import_lines) fr
             else (None, fr))
      in case raised of
           Some e \<Rightarrow> (Some e, fr1)
         | None \<Rightarrow> if other_lines \<noteq> [] then run_other_code py other_lines fr1 else (None, fr1))"

text \<open>
  \<^verbatim>\<open>SecureInteractiveConsole.execute_code\<close>. The result is the \<^verbatim>\<open>REPLResult\<close>, or
  the exception that leaves the method (one that \<^verbatim>\<open>except Exception\<close> does not catch),
  together with the console, whose namespace the executed code has changed in place.
\<close>

definition console_execute_code ::
  "('ns, 'v) python \<Rightarrow> 'ns console \<Rightarrow> string \<Rightarrow> (exn + REPLResult) \<times> 'ns console" where
  "console_execute_code py con code_str =
     (case check_code_security (security_level con) code_str of
        (False, security_msg) \<Rightarrow>
          (Inr \<lparr>stdout = [], stderr = ''Security Error: '' @ security_msg,
                locals_snapshot = dict_locals py (console_locals con), success = False\<rparr>,
           con)
      | (True, security_msg) \<Rightarrow>
          (case run_body py code_str
                  \<lparr>frame_locals = console_locals con, stdout_buffer = [], stderr_buffer = []\<rparr> of
             (None, fr) \<Rightarrow>
               (Inr \<lparr>stdout = stdout_buffer fr, stderr = stderr_buffer fr,
                     locals_snapshot = safe_locals_snapshot py (frame_locals fr),
                     success = True\<rparr>,
                con\<lparr>console_locals := frame_locals fr\<rparr>)
           | (Some e, fr) \<Rightarrow>
               if is_Exception e then
                 (Inr \<lparr>stdout = stdout_buffer fr, stderr = stderr_buffer fr @ exn_str e,
                       locals_snapshot = safe_locals_snapshot py (frame_locals fr),
                       success = False\<rparr>,
                  con\<lparr>console_locals := frame_locals fr\<rparr>)
               else (Inl e, con\<lparr>console_locals := frame_locals fr\<rparr>)))"

section \<open>A fragment of Python for the concrete runs\<close>

text \<open>
  An interpreter for a small fragment of Python, with which the concrete submissions
  below are run. A line is blank, a comment, \<^verbatim>\<open>print("...")\<close>,
  \<^verbatim>\<open>raise Exception("...")\<close>, an assignment \<^verbatim>\<open>name = expr\<close> or an expression; an
  expression is an atom, \<^verbatim>\<open>atom + atom\<close> or \<^verbatim>\<open>atom // atom\<close>, with single spaces;
  an atom is a decimal integer or a lower-case name. Values are integers. On this
  fragment it does what CPython does. Any other text it rejects with a
  \<^verbatim>\<open>SyntaxError\<close>; CPython accepts some such texts and reports other errors for
  others, so the concrete runs use texts of the fragment, or a line (\<open>import 5\<close>) that
  CPython rejects with the same error. The namespace holds the variables that submissions
  assign; the built-ins and the injected functions are left out.
\<close>

type_synonym mini_ns = "(string \<times> int) list"

definition is_digit :: "char \<Rightarrow> bool" where
  "is_digit c = (c \<in> set ''0123456789'')"

definition is_name_start :: "char \<Rightarrow> bool" where
  "is_name_start c = (c \<in> set ''abcdefghijklmnopqrstuvwxyz_'')"

definition python_keywords :: "string list" where
  "python_keywords =
     [''and'', ''as'', ''assert'', ''async'', ''await'', ''break'', ''class'', ''continue'',
      ''def'', ''del'', ''elif'', ''else'', ''except'', ''finally'', ''for'', ''from'',
      ''global'', ''if'', ''import'', ''in'', ''is'', ''lambda'', ''nonlocal'', ''not'',
      ''or'', ''pass'', ''raise'', ''return'', ''try'', ''while'', ''with'', ''yield'']"

definition is_name :: "string \<Rightarrow> bool" where
  "is_name s = (s \<noteq> [] \<and> is_name_start (hd s)
                \<and> list_all (\<lambda>c. is_name_start c \<or> is_digit c) s
                \<and> s \<notin> set python_keywords)"

definition is_int_literal :: "string \<Rightarrow> bool" where
  "is_int_literal s = (s \<noteq> [] \<and> list_all is_digit s \<and> (s = ''0'' \<or> hd s \<noteq> CHR ''0''))"

definition digit_value :: "char \<Rightarrow> nat" where
  "digit_value c = py_find c ''0123456789''"

definition digits_value :: "string \<Rightarrow> nat" where
  "digits_value s = fold (\<lambda>c n. 10 * n + digit_value c) s 0"

datatype atom = ALit int | AName string

datatype expr = EAtom atom | EAdd atom atom | EFloorDiv atom atom

datatype stmt = SSkip | SPrint string | SRaise string | SAssign string expr | SExpr expr

definition parse_atom :: "string \<Rightarrow> atom option" where
  "parse_atom s =
     (if is_int_literal s then Some (ALit (int (digits_value s)))
      else if s \<noteq> [] \<and> hd s = CHR ''-'' \<and> is_int_literal (tl s)
        then Some (ALit (- int (digits_value (tl s))))
      else if is_name s then Some (AName s)
      else None)"

fun parse_expr :: "string list \<Rightarrow> expr option" where
  "parse_expr [a] = map_option EAtom (parse_atom a)"
| "parse_expr [a, op, b] =
     (case (parse_atom a, parse_atom b) of
        (Some x, Some y) \<Rightarrow>
          (if op = ''+'' then Some (EAdd x y)
           else if op = ''//'' then Some (EFloorDiv x y)
           else None)
      | _ \<Rightarrow> None)"
| "parse_expr _ = None"

text \<open>The text between \<open>open\<close> and \<open>close\<close>, when it is a plain string literal body.\<close>

definition string_argument :: "string \<Rightarrow> string \<Rightarrow> string \<Rightarrow> string option" where
  "string_argument opening closing line =
     (if prefix opening line \<and> suffix closing line
           \<and> length opening + length closing \<le> length line
      then (let body = take (length line - length opening - length closing)
                         (drop (length opening) line)
            in if DQ \<in> set body \<or> CHR 0x5C \<in> set body then None else Some body)
      else None)"

definition parse_stmt :: "string \<Rightarrow> stmt option" where
  "parse_stmt line =
     (if py_strip line = [] \<or> prefix ''#'' (py_strip line) then Some SSkip
      else case string_argument (''print('' @ [DQ]) (DQ # '')'') line of
        Some s \<Rightarrow> Some (SPrint s)
      | None \<Rightarrow>
      (case string_argument (''raise Exception('' @ [DQ]) (DQ # '')'') line of
        Some s \<Rightarrow> Some (SRaise s)
      | None \<Rightarrow>
      (case py_split (CHR '' '') line of
         name # eq # rest \<Rightarrow>
           (if eq = ''='' \<and> is_name name then map_option (SAssign name) (parse_expr rest)
            else map_option SExpr (parse_expr (name # eq # rest)))
       | ws \<Rightarrow> map_option SExpr (parse_expr ws))))"

definition eval_atom :: "mini_ns \<Rightarrow> atom \<Rightarrow> exn + int" where
  "eval_atom ns a =
     (case a of
        ALit n \<Rightarrow> Inr n
      | AName x \<Rightarrow>
          (case map_of ns x of
             Some v \<Rightarrow> Inr v
           | None \<Rightarrow> Inl (Exn NameError (''name '' @ [SQ] @ x @ [SQ] @ '' is not defined''))))"

definition eval_expr :: "mini_ns \<Rightarrow> expr \<Rightarrow> exn + int" where
  "eval_expr ns e =
     (case e of
        EAtom a \<Rightarrow> eval_atom ns a
      | EAdd a b \<Rightarrow>
          (case eval_atom ns a of Inl x \<Rightarrow> Inl x
           | Inr m \<Rightarrow> (case eval_atom ns b of Inl x \<Rightarrow> Inl x | Inr n \<Rightarrow> Inr (m + n)))
      | EFloorDiv a b \<Rightarrow>
          (case eval_atom ns a of Inl x \<Rightarrow> Inl x
           | Inr m \<Rightarrow>
               (case eval_atom ns b of Inl x \<Rightarrow> Inl x
                | Inr n \<Rightarrow>
                    if n = 0
                    then Inl (Exn ZeroDivisionError ''integer division or modulo by zero'')
                    else Inr (m div n))))"

text \<open>Assignment into a dictionary: an existing key keeps its place, a new one goes last.\<close>

fun dict_set :: "string \<Rightarrow> int \<Rightarrow> mini_ns \<Rightarrow> mini_ns" where
  "dict_set x v [] = [(x, v)]"
| "dict_set x v ((y, w) # rest) =
     (if x = y then (y, v) # rest else (y, w) # dict_set x v rest)"

definition exec_stmt :: "stmt \<Rightarrow> mini_ns frame \<Rightarrow> exn option \<times> mini_ns frame" where
  "exec_stmt s fr =
     (case s of
        SSkip \<Rightarrow> (None, fr)
      | SPrint t \<Rightarrow> (None, py_print t fr)
      | SRaise t \<Rightarrow> (Some (Exn PlainException t), fr)
      | SAssign x e \<Rightarrow>
          (case eval_expr (frame_locals fr) e of
             Inl err \<Rightarrow> (Some err, fr)
           | Inr v \<Rightarrow> (None, fr\<lparr>frame_locals := dict_set x v (frame_locals fr)\<rparr>))
      | SExpr e \<Rightarrow>
          (case eval_expr (frame_locals fr) e of
             Inl err \<Rightarrow> (Some err, fr)
           | Inr v \<Rightarrow> (None, fr)))"

fun exec_stmts :: "stmt list \<Rightarrow> mini_ns frame \<Rightarrow> exn option \<times> mini_ns frame" where
  "exec_stmts [] fr = (None, fr)"
| "exec_stmts (s # rest) fr =
     (case exec_stmt s fr of
        (Some e, fr') \<Rightarrow> (Some e, fr')
      | (None, fr') \<Rightarrow> exec_stmts rest fr')"

text \<open>\<^verbatim>\<open>repr\<close> of an integer: its decimal digits, with a sign when negative.\<close>

fun show_nat :: "nat \<Rightarrow> string" where
  "show_nat n =
     (if n < 10 then [''0123456789'' ! n]
      else show_nat (n div 10) @ [''0123456789'' ! (n mod 10)])"

declare show_nat.simps [simp del]

definition show_int :: "int \<Rightarrow> string" where
  "show_int i = (if i < 0 then CHR ''-'' # show_nat (nat (- i)) else show_nat (nat i))"

text \<open>
  The whole text is compiled before any of it runs. A text with a line outside the
  fragment is rejected with the error that CPython reports for plain invalid syntax, at the
  first such line.
\<close>

definition syntax_error :: "nat \<Rightarrow> exn" where
  "syntax_error n =
     Exn SyntaxError (''invalid syntax (<string>, line '' @ show_nat n @ '')'')"

definition first_unparsed_line :: "string list \<Rightarrow> nat" where
  "first_unparsed_line lines = Suc (length (takeWhile (\<lambda>l. parse_stmt l \<noteq> None) lines))"

definition mini_exec :: "string \<Rightarrow> mini_ns frame \<Rightarrow> exn option \<times> mini_ns frame" where
  "mini_exec code fr =
     (case those (map parse_stmt (py_split NL code)) of
        None \<Rightarrow> (Some (syntax_error (first_unparsed_line (py_split NL code))), fr)
      | Some stmts \<Rightarrow> exec_stmts stmts fr)"

definition mini_eval :: "string \<Rightarrow> mini_ns frame \<Rightarrow> (exn + int) \<times> mini_ns frame" where
  "mini_eval src fr =
     (case parse_expr (py_split (CHR '' '') src) of
        None \<Rightarrow> (Inl (syntax_error 1), fr)
      | Some e \<Rightarrow> (eval_expr (frame_locals fr) e, fr))"

definition mini_python :: "(mini_ns, int) python" where
  "mini_python =
     \<lparr>py_exec = mini_exec, py_eval = mini_eval, py_is_None = (\<lambda>v. False),
      py_repr = show_int, py_items = (\<lambda>ns. ns), py_json_ok = (\<lambda>v. True),
      py_value = VInt, py_type_name = (\<lambda>v. ''int'')\<rparr>"

section \<open>Concrete consoles and submissions\<close>


text \<open>A console in which an earlier submission has set \<open>k\<close> to \<open>-1\<close>.\<close>

definition con_k :: "mini_ns console" where
  "con_k = \<lparr>security_level = BASIC, console_locals = [(''k'', - 1)]\<rparr>"


definition bump_then_divide :: string where
  \<open>bump_then_divide = ''print("a")'' @ [NL] @ ''k = k + 1'' @ [NL] @ ''1 // k''\<close>

text \<open>The frame in which \<open>console_execute_code\<close> starts the execution.\<close>

definition start_frame :: "'ns console \<Rightarrow> 'ns frame" where
  "start_frame con =
     \<lparr>frame_locals = console_locals con, stdout_buffer = [], stderr_buffer = []\<rparr>"

section \<open>tools.py\<close>

text \<open>
  What the tool functions work on: the session state dictionary
  \<^verbatim>\<open>tool_context.state\<close> and the module-level registry \<^verbatim>\<open>_repl_environments\<close>. An
  \<^verbatim>\<open>ADKREPLEnvironment\<close> is represented by its console. The field \<open>state_writes\<close> is
  a history variable, not part of the program: the states that successful calls of
  \<^verbatim>\<open>transition_to\<close> made by the tool functions have stored, oldest first.
\<close>

record 'ns world =
  state :: state_dict
  repl_environments :: "string \<rightharpoonup> 'ns console"
  state_writes :: "REPLState list"


text \<open>\<^verbatim>\<open>state.get(REPL_SECURITY_LEVEL_KEY, SecurityLevel.BASIC.value)\<close>.\<close>

definition stored_security_level :: "state_dict \<Rightarrow> pyval" where
  "stored_security_level state_dict =
     (case state_dict REPL_SECURITY_LEVEL_KEY of
        None \<Rightarrow> VStr (SecurityLevel_value BASIC) | Some v \<Rightarrow> v)"

















text \<open>A line with a plain \<open>=\<close> after a \<open>#\<close> that stands inside a string literal.\<close>

definition hash_subscript_line :: string where
  \<open>hash_subscript_line = ''d["#"] = 1''\<close>

section \<open>The parts of a submission\<close>









section \<open>Reading the stored state\<close>

lemma REPLState_of_str_value: "REPLState_of_str (REPLState_value st) = Some st"
  by (cases st) (simp_all add: REPLState_of_str_def)

lemma REPLState_of_str_None: "(\<forall>st. s \<noteq> REPLState_value st) \<Longrightarrow> REPLState_of_str s = None"
proof -
  assume h: "\<forall>st. s \<noteq> REPLState_value st"
  from h[rule_format, of IDLE] h[rule_format, of CODE_PENDING_REVIEW]
    h[rule_format, of CODE_APPROVED] h[rule_format, of CODE_REJECTED]
    h[rule_format, of EXECUTING] h[rule_format, of COMPLETE]
  show ?thesis by (simp add: REPLState_of_str_def)
qed

lemma get_state_stored:
  "state_dict REPL_STATE_KEY = Some (VStr (REPLState_value st))
     \<Longrightarrow> get_state_from_dict state_dict = st"
  by (simp add: get_state_from_dict_def REPLState_of_str_value)

lemma get_state_not_a_string:
  "state_dict REPL_STATE_KEY = Some v \<Longrightarrow> (\<forall>s. v \<noteq> VStr s)
     \<Longrightarrow> get_state_from_dict state_dict = IDLE"
  by (cases v) (simp_all add: get_state_from_dict_def)

text \<open>
  C10. Reading the state never fails: \<open>get_state_from_dict\<close> is a total function into
  the six states, and for every state dictionary in which the state key is missing, or
  holds a string that is none of the six state values, it returns \<open>IDLE\<close>. The
  operations that read the state (\<open>is_complete\<close>, \<open>transition_to\<close>) then behave as
  they do on a dictionary that stores \<open>idle\<close>.
\<close>

theorem get_state_from_dict_defaults_to_IDLE:
  assumes "state_dict REPL_STATE_KEY = None
           \<or> (\<exists>s. state_dict REPL_STATE_KEY = Some (VStr s)
                   \<and> (\<forall>st. s \<noteq> REPLState_value st))"
  shows "get_state_from_dict state_dict = IDLE
         \<and> is_complete state_dict = False
         \<and> fst (transition_to vt state_dict new_state validate)
             = fst (transition_to vt (state_dict(REPL_STATE_KEY \<mapsto> VStr ''idle''))
                      new_state validate)"
proof -
  have g: "get_state_from_dict state_dict = IDLE"
    using assms
  proof
    assume "state_dict REPL_STATE_KEY = None"
    then show ?thesis
      by (simp add: get_state_from_dict_def REPLState_of_str_def)
  next
    assume "\<exists>s. state_dict REPL_STATE_KEY = Some (VStr s)
                \<and> (\<forall>st. s \<noteq> REPLState_value st)"
    then obtain s where s: "state_dict REPL_STATE_KEY = Some (VStr s)"
      and n: "\<forall>st. s \<noteq> REPLState_value st"
      by blast
    from n have "REPLState_of_str s = None"
      by (rule REPLState_of_str_None)
    with s show ?thesis
      by (simp add: get_state_from_dict_def)
  qed
  have g': "get_state_from_dict (state_dict(REPL_STATE_KEY \<mapsto> VStr ''idle'')) = IDLE"
    by (simp add: get_state_from_dict_def REPLState_of_str_def)
  show ?thesis
    unfolding is_complete_def transition_to_def g g'
    by (simp add: Let_def split: sum.splits)
qed

theorem get_state_from_dict_defaults_to_IDLE_witness:
  "get_state_from_dict Map.empty = IDLE
   \<and> get_state_from_dict [REPL_STATE_KEY \<mapsto> VStr ''running''] = IDLE
   \<and> get_state_from_dict [REPL_STATE_KEY \<mapsto> VStr ''''] = IDLE"
proof -
  have a: "\<forall>st. ''running'' \<noteq> REPLState_value st"
  proof
    fix st show "''running'' \<noteq> REPLState_value st" by (cases st) simp_all
  qed
  have b: "\<forall>st. '''' \<noteq> REPLState_value st"
  proof
    fix st show "'''' \<noteq> REPLState_value st" by (cases st) simp_all
  qed
  show ?thesis
    using get_state_from_dict_defaults_to_IDLE [of Map.empty]
      get_state_from_dict_defaults_to_IDLE [of "[REPL_STATE_KEY \<mapsto> VStr ''running'']"]
      get_state_from_dict_defaults_to_IDLE [of "[REPL_STATE_KEY \<mapsto> VStr '''']"]
      a b
    by simp
qed

section \<open>Validated transitions\<close>

lemma transition_to_as_shipped:
  "transition_to cls_VALID_TRANSITIONS state_dict new_state True
     = (Inl (Exn AttributeError
              (''type object 'REPLStateManager' has no attribute 'VALID_TRANSITIONS'' @ [SQ])),
        state_dict)"
  by (simp add: transition_to_def can_transition_def cls_VALID_TRANSITIONS_def)

lemma can_transition_table:
  "can_transition (Inr VALID_TRANSITIONS) cur tgt = Inr (tgt \<in> spec_allowed cur)"
  by (cases cur) (auto simp: can_transition_def VALID_TRANSITIONS_def)

text \<open>
  Were the table reachable from the class methods, \<open>transition_to\<close> would do what the
  specification says for every pair of states.
\<close>

lemma transition_to_table:
  assumes "state_dict REPL_STATE_KEY = Some (VStr (REPLState_value cur))"
  shows "transition_to (Inr VALID_TRANSITIONS) state_dict tgt True =
           (if tgt \<in> spec_allowed cur
            then (Inr True, state_dict(REPL_STATE_KEY \<mapsto> VStr (REPLState_value tgt)))
            else (Inl (Exn ValueError (''Invalid state transition from '' @ REPLState_value cur
                                         @ '' to '' @ REPLState_value tgt)), state_dict))"
proof -
  have g: "get_state_from_dict state_dict = cur"
    by (rule get_state_stored) (rule assms)
  show ?thesis
    unfolding transition_to_def g can_transition_table by simp
qed

text \<open>
  C1. The claim is that a validated transition from \<open>IDLE\<close> to
  \<open>CODE_PENDING_REVIEW\<close>, which the table allows, stores the target and returns
  \<open>True\<close>. The class method cannot reach the table: the call raises
  \<^verbatim>\<open>AttributeError\<close> and the stored state stays \<open>idle\<close>.
\<close>

theorem transition_to_validated_raises_AttributeError:
  "transition_to cls_VALID_TRANSITIONS [REPL_STATE_KEY \<mapsto> VStr ''idle'']
     CODE_PENDING_REVIEW True
     = (Inl (Exn AttributeError
              (''type object 'REPLStateManager' has no attribute 'VALID_TRANSITIONS'' @ [SQ])),
        [REPL_STATE_KEY \<mapsto> VStr ''idle''])"
  by (simp add: transition_to_def can_transition_def cls_VALID_TRANSITIONS_def)

section \<open>Output routing\<close>

lemma router_write_sub:
  "current_target r \<noteq> ''base'' \<Longrightarrow>
     base_lm_buffer (router_write text r) = base_lm_buffer r
     \<and> current_target (router_write text r) = current_target r"
  by (simp add: router_write_def)

lemma fold_router_write_sub:
  "current_target r \<noteq> ''base'' \<Longrightarrow>
     base_lm_buffer (fold router_write texts r) = base_lm_buffer r
     \<and> current_target (fold router_write texts r) = current_target r"
proof (induction texts arbitrary: r)
  case Nil
  then show ?case by simp
next
  case (Cons t ts)
  from Cons.prems have w: "base_lm_buffer (router_write t r) = base_lm_buffer r"
    "current_target (router_write t r) = current_target r"
    by (simp_all add: router_write_sub)
  with Cons.prems have "current_target (router_write t r) \<noteq> ''base''" by simp
  from Cons.IH[OF this] w show ?case by simp
qed

text \<open>
  C4. Every write made while the current target is \<open>sub\<close> leaves the base buffer
  unchanged, for one write and for any sequence of them; and \<open>redirect\<close>, whatever
  its body does and whether the body returns or raises, ends with the current target it
  started with, and passes the body's outcome on.
\<close>

theorem sub_writes_spare_base_and_redirect_restores:
  "(current_target r = ''sub'' \<longrightarrow>
      base_lm_buffer (router_write text r) = base_lm_buffer r
      \<and> base_lm_buffer (fold router_write texts r) = base_lm_buffer r)
   \<and> current_target (snd (redirect target body r)) = current_target r
   \<and> fst (redirect target body r) = fst (body (set_target target r))"
proof -
  have a: "current_target r = ''sub'' \<longrightarrow>
      base_lm_buffer (router_write text r) = base_lm_buffer r
      \<and> base_lm_buffer (fold router_write texts r) = base_lm_buffer r"
  proof
    assume "current_target r = ''sub''"
    then have "current_target r \<noteq> ''base''" by simp
    then show "base_lm_buffer (router_write text r) = base_lm_buffer r
      \<and> base_lm_buffer (fold router_write texts r) = base_lm_buffer r"
      using router_write_sub [of r "text"] fold_router_write_sub [of r texts] by simp
  qed
  have b: "current_target (snd (redirect target body r)) = current_target r"
    by (simp add: redirect_def set_target_def split: prod.splits)
  have c: "fst (redirect target body r) = fst (body (set_target target r))"
    by (simp add: redirect_def split: prod.splits)
  from a b c show ?thesis by blast
qed

theorem sub_writes_spare_base_and_redirect_restores_witness:
  "current_target (set_target ''sub'' OutputRouter_init) = ''sub''
   \<and> base_lm_buffer (router_write ''x'' (set_target ''sub'' OutputRouter_init)) = []
   \<and> redirect ''sub'' faulty_callback OutputRouter_init
       = (Inl (Exn PlainException ''callback failed''),
          \<lparr>base_lm_buffer = [], sub_lm_buffer = ''partial'', current_target = ''base''\<rparr>)"
proof -
  have t: "current_target (set_target ''sub'' OutputRouter_init) = ''sub''"
    by (simp add: set_target_def)
  have i: "base_lm_buffer (set_target ''sub'' OutputRouter_init) = []"
    by (simp add: set_target_def OutputRouter_init_def)
  have e: "redirect ''sub'' faulty_callback OutputRouter_init
       = (Inl (Exn PlainException ''callback failed''),
          \<lparr>base_lm_buffer = [], sub_lm_buffer = ''partial'', current_target = ''base''\<rparr>)"
    by (simp add: redirect_def faulty_callback_def router_write_def set_target_def
        OutputRouter_init_def)
  show ?thesis
    using sub_writes_spare_base_and_redirect_restores
      [of "set_target ''sub'' OutputRouter_init" "''x''" "[]" "''sub''" faulty_callback]
      t i e
    by simp
qed

section \<open>The security check\<close>

lemma scan_patterns_first_match:
  "(\<exists>i < length ps. sublist (fst (ps ! i)) code
        \<and> (\<forall>j < i. \<not> sublist (fst (ps ! j)) code)
        \<and> scan_patterns ps code = (False, snd (ps ! i)))
   \<or> ((\<forall>p \<in> set ps. \<not> sublist (fst p) code)
        \<and> scan_patterns ps code = (True, ''Code passed security checks''))"
proof (induction ps)
  case Nil
  then show ?case by simp
next
  case (Cons p ps)
  obtain pat msg where p: "p = (pat, msg)" by (cases p)
  show ?case
  proof (cases "sublist pat code")
    case True
    then have "0 < length (p # ps) \<and> sublist (fst ((p # ps) ! 0)) code
        \<and> (\<forall>j < 0. \<not> sublist (fst ((p # ps) ! j)) code)
        \<and> scan_patterns (p # ps) code = (False, snd ((p # ps) ! 0))"
      by (simp add: p)
    then show ?thesis by blast
  next
    case False
    from Cons.IH show ?thesis
    proof
      assume "\<exists>i < length ps. sublist (fst (ps ! i)) code
        \<and> (\<forall>j < i. \<not> sublist (fst (ps ! j)) code)
        \<and> scan_patterns ps code = (False, snd (ps ! i))"
      then obtain i where i: "i < length ps" "sublist (fst (ps ! i)) code"
        "\<forall>j < i. \<not> sublist (fst (ps ! j)) code"
        "scan_patterns ps code = (False, snd (ps ! i))" by blast
      have "\<forall>j < Suc i. \<not> sublist (fst ((p # ps) ! j)) code"
      proof (intro allI impI)
        fix j assume "j < Suc i"
        then show "\<not> sublist (fst ((p # ps) ! j)) code"
          using False i(3) by (cases j) (simp_all add: p)
      qed
      with i False have "Suc i < length (p # ps) \<and> sublist (fst ((p # ps) ! Suc i)) code
        \<and> (\<forall>j < Suc i. \<not> sublist (fst ((p # ps) ! j)) code)
        \<and> scan_patterns (p # ps) code = (False, snd ((p # ps) ! Suc i))"
        by (simp add: p)
      then show ?thesis by blast
    next
      assume "(\<forall>p \<in> set ps. \<not> sublist (fst p) code)
        \<and> scan_patterns ps code = (True, ''Code passed security checks'')"
      with False show ?thesis by (simp add: p)
    qed
  qed
qed

text \<open>
  C6. At level BASIC or STRICT the check returns \<open>False\<close> with the message of the
  first entry of the denylist, in its fixed order, whose pattern occurs in the code as a
  substring; when no pattern occurs it returns \<open>True\<close>.
\<close>

theorem check_code_security_first_match:
  assumes "level = BASIC \<or> level = STRICT"
  shows "(\<exists>i < length dangerous_patterns.
            sublist (fst (dangerous_patterns ! i)) code
            \<and> (\<forall>j < i. \<not> sublist (fst (dangerous_patterns ! j)) code)
            \<and> check_code_security level code = (False, snd (dangerous_patterns ! i)))
         \<or> ((\<forall>p \<in> set dangerous_patterns. \<not> sublist (fst p) code)
            \<and> check_code_security level code = (True, ''Code passed security checks''))"
proof -
  from assms have "check_code_security level code = scan_patterns dangerous_patterns code"
    by (auto simp: check_code_security_def)
  then show ?thesis
    using scan_patterns_first_match [of dangerous_patterns code] by simp
qed

lemma check_os_system_code:
  "check_code_security BASIC os_system_code = (False, ''os module import blocked'')"
  by (simp add: check_code_security_def dangerous_patterns_def os_system_code_def sublist_code)

lemma check_clean: "check_code_security STRICT ''x = 1'' = (True, ''Code passed security checks'')"
  by (simp add: check_code_security_def dangerous_patterns_def sublist_code)

theorem check_code_security_first_match_witness:
  "(BASIC = BASIC \<or> BASIC = STRICT)
   \<and> ((\<exists>i < length dangerous_patterns.
            sublist (fst (dangerous_patterns ! i)) os_system_code
            \<and> (\<forall>j < i. \<not> sublist (fst (dangerous_patterns ! j)) os_system_code)
            \<and> check_code_security BASIC os_system_code
                  = (False, snd (dangerous_patterns ! i)))
         \<or> ((\<forall>p \<in> set dangerous_patterns. \<not> sublist (fst p) os_system_code)
            \<and> check_code_security BASIC os_system_code
                  = (True, ''Code passed security checks'')))
   \<and> check_code_security BASIC os_system_code = (False, ''os module import blocked'')
   \<and> check_code_security STRICT ''x = 1'' = (True, ''Code passed security checks'')"
  using check_code_security_first_match [of BASIC os_system_code]
    check_os_system_code check_clean
  by simp

section \<open>Classifying the last line\<close>

lemma py_split_nonempty: "py_split c s \<noteq> []"
  by (induction s) (simp_all add: Let_def)

lemma hd_py_split: "hd (py_split c s) = takeWhile (\<lambda>x. x \<noteq> c) s"
  by (induction s) (simp_all add: Let_def)

lemma py_find_lt: "c \<in> set s \<Longrightarrow> py_find c s < length s"
  by (induction s) (auto simp: py_find_def)

lemma py_find_nth: "c \<in> set s \<Longrightarrow> s ! py_find c s = c"
  by (induction s) (auto simp: py_find_def)

lemma py_find_before: "j < py_find c s \<Longrightarrow> s ! j \<noteq> c"
proof (induction s arbitrary: j)
  case Nil
  then show ?case by (simp add: py_find_def)
next
  case (Cons x xs)
  show ?case
  proof (cases "x = c")
    case True
    with Cons.prems show ?thesis by (simp add: py_find_def)
  next
    case False
    show ?thesis
    proof (cases j)
      case 0
      with False show ?thesis by simp
    next
      case (Suc k)
      with Cons.prems False have "k < py_find c xs" by (simp add: py_find_def)
      from Cons.IH[OF this] Suc show ?thesis by simp
    qed
  qed
qed

lemma starters_simps:
  "startswith_any statement_starters ''== b)'' = False"
  "startswith_any statement_starters ''a == b'' = False"
  "startswith_any statement_starters ''x = 1'' = False"
  "startswith_any statement_starters ''a <= b'' = False"
  by (simp_all add: startswith_any_def statement_starters_def)

text \<open>
  C7, as amended. The classification of a line follows three tests, in this order.
  A line that begins with one of the statement starters of the code, compared as a plain
  string prefix (so that \<open>password == 1\<close> begins with \<open>pass\<close>), is not an expression.
  Otherwise, when an \<open>=\<close> occurs before the first \<open>#\<close> of the line (any \<open>#\<close>, also
  one inside a string literal), the line is an expression exactly when its first \<open>=\<close> is
  not the first character of the line and the character before or after that \<open>=\<close> makes
  it one of \<open>==\<close>, \<open>!=\<close>, \<open><=\<close>, \<open>>=\<close>; for a plain first \<open>=\<close> and for a line
  that begins with \<open>=\<close> it is an assignment. Otherwise, with no \<open>=\<close> before the first
  \<open>#\<close>, the line is an expression unless it ends with a colon or begins with
  \<open>print(\<close>.
\<close>

theorem is_expression_classification:
  "(startswith_any statement_starters line \<longrightarrow> \<not> is_expression line)
   \<and> (\<not> startswith_any statement_starters line \<and> CHR ''='' \<in> set (before_comment line)
        \<longrightarrow> is_expression line
              = (0 < py_find (CHR ''='') line \<and> spec_eq_is_comparison line))
   \<and> (\<not> startswith_any statement_starters line \<and> CHR ''='' \<notin> set (before_comment line)
        \<longrightarrow> is_expression line = (\<not> suffix '':'' line \<and> \<not> prefix ''print('' line))"
proof -
  have a: "startswith_any statement_starters line \<longrightarrow> \<not> is_expression line"
    by (simp add: is_expression_def)
  have b: "\<not> startswith_any statement_starters line \<and> CHR ''='' \<in> set (before_comment line)
        \<longrightarrow> is_expression line
              = (0 < py_find (CHR ''='') line \<and> spec_eq_is_comparison line)"
  proof
    assume h: "\<not> startswith_any statement_starters line
               \<and> CHR ''='' \<in> set (before_comment line)"
    define i where "i = py_find (CHR ''='') line"
    from h have mem: "CHR ''='' \<in> set line"
      unfolding before_comment_def by (meson set_takeWhileD)
    have lt: "i < length line" unfolding i_def by (rule py_find_lt[OF mem])
    have prev: "0 < i \<Longrightarrow> line ! (i - 1) \<noteq> CHR ''=''"
      unfolding i_def by (rule py_find_before) simp
    have c1: "CHR ''='' \<in> set (hd (py_split (CHR ''#'') line))"
      using h by (simp add: hd_py_split before_comment_def)
    have nxt: "(int i < int (length line) - 1) = (i + 1 < length line)"
      using lt by linarith
    have "is_expression line
            = (0 < i \<and> (line ! (i - 1) \<in> set ''!<>=''
                          \<or> (i + 1 < length line \<and> line ! (i + 1) = CHR ''='')))"
      unfolding is_expression_def using h c1 nxt
      by (auto simp: Let_def i_def[symmetric])
    also have "\<dots> = (0 < i \<and> spec_eq_is_comparison line)"
      unfolding spec_eq_is_comparison_def Let_def i_def[symmetric]
      using prev by auto
    finally show "is_expression line
              = (0 < py_find (CHR ''='') line \<and> spec_eq_is_comparison line)"
      unfolding i_def .
  qed
  have c: "\<not> startswith_any statement_starters line
             \<and> CHR ''='' \<notin> set (before_comment line)
        \<longrightarrow> is_expression line = (\<not> suffix '':'' line \<and> \<not> prefix ''print('' line)"
    by (auto simp: is_expression_def hd_py_split before_comment_def)
  from a b c show ?thesis by blast
qed

lemma classification_inputs:
  "startswith_any statement_starters ''password == 1''"
  "\<not> startswith_any statement_starters ''a == b''"
  "\<not> startswith_any statement_starters ''a <= b''"
  "\<not> startswith_any statement_starters ''x = 1''"
  "\<not> startswith_any statement_starters ''== b)''"
  "\<not> startswith_any statement_starters hash_subscript_line"
  "CHR ''='' \<in> set (before_comment ''a == b'')"
  "CHR ''='' \<in> set (before_comment ''a <= b'')"
  "CHR ''='' \<in> set (before_comment ''x = 1'')"
  "CHR ''='' \<in> set (before_comment ''== b)'')"
  "CHR ''='' \<notin> set (before_comment hash_subscript_line)"
  "0 < py_find (CHR ''='') ''a == b'' \<and> spec_eq_is_comparison ''a == b''"
  "0 < py_find (CHR ''='') ''a <= b'' \<and> spec_eq_is_comparison ''a <= b''"
  "\<not> spec_eq_is_comparison ''x = 1''"
  "\<not> 0 < py_find (CHR ''='') ''== b)''"
  "\<not> suffix '':'' hash_subscript_line \<and> \<not> prefix ''print('' hash_subscript_line"
  by (simp_all add: startswith_any_def statement_starters_def before_comment_def
      py_find_def spec_eq_is_comparison_def hash_subscript_line_def suffix_to_prefix)

theorem is_expression_classification_witness:
  "startswith_any statement_starters ''password == 1''
   \<and> \<not> is_expression ''password == 1''
   \<and> \<not> startswith_any statement_starters ''a == b''
   \<and> CHR ''='' \<in> set (before_comment ''a == b'')
   \<and> is_expression ''a == b''
   \<and> is_expression ''a <= b''
   \<and> \<not> is_expression ''x = 1''
   \<and> \<not> is_expression ''== b)''
   \<and> \<not> startswith_any statement_starters hash_subscript_line
   \<and> CHR ''='' \<notin> set (before_comment hash_subscript_line)
   \<and> is_expression hash_subscript_line"
  using is_expression_classification [of "''password == 1''"]
    is_expression_classification [of "''a == b''"]
    is_expression_classification [of "''a <= b''"]
    is_expression_classification [of "''x = 1''"]
    is_expression_classification [of "''== b)''"]
    is_expression_classification [of hash_subscript_line]
    classification_inputs
  by simp

text \<open>
  C7 as stated fails on a line that begins with \<open>==\<close>, such as the continuation
  line \<open>== b)\<close>: the character after its first \<open>=\<close> makes it \<open>==\<close>, and the line
  is classified as an assignment.
\<close>

theorem is_expression_leading_equals_counterexample:
  "py_strip ''== b)'' = ''== b)''
   \<and> \<not> prefix ''#'' ''== b)''
   \<and> CHR ''='' \<in> set (before_comment ''== b)'')
   \<and> \<not> startswith_any statement_starters ''== b)''
   \<and> spec_eq_is_comparison ''== b)''
   \<and> \<not> is_expression ''== b)''"
proof -
  have "py_strip ''== b)'' = ''== b)''"
    by (simp add: py_strip_def is_space_def)
  moreover have "\<not> prefix ''#'' ''== b)''" by simp
  moreover have "CHR ''='' \<in> set (before_comment ''== b)'')"
    by (simp add: before_comment_def)
  moreover have "\<not> startswith_any statement_starters ''== b)''"
    by (simp add: starters_simps)
  moreover have "spec_eq_is_comparison ''== b)''"
    by (simp add: spec_eq_is_comparison_def py_find_def)
  moreover have "\<not> is_expression ''== b)''"
    by (simp add: is_expression_def starters_simps py_find_def)
  ultimately show ?thesis by blast
qed

section \<open>Executing a submission\<close>














section \<open>Faults during execution\<close>












lemma first_attempt_bump_then_divide:
  "first_attempt mini_python (py_split NL bump_then_divide)
       (filter is_non_comment_line (py_split NL bump_then_divide))
       (py_strip (last (filter is_non_comment_line (py_split NL bump_then_divide))))
       (start_frame con_k)
     = (Some (Exn ZeroDivisionError ''integer division or modulo by zero''),
        \<lparr>frame_locals = [(''k'', 0)], stdout_buffer = ''a'' @ [NL], stderr_buffer = []\<rparr>)"
  by code_simp

lemma console_bump_then_divide:
  "console_execute_code mini_python con_k bump_then_divide
     = (Inr \<lparr>stdout = ''a'' @ [NL] @ ''a'' @ [NL], stderr = [],
             locals_snapshot = VDict [(''k'', VInt 1)], success = True\<rparr>,
        con_k\<lparr>console_locals := [(''k'', 1)]\<rparr>)"
  by code_simp

lemma bump_then_divide_lines:
  "filter is_non_comment_line (py_split NL bump_then_divide) \<noteq> []"
  "is_expression (py_strip (last (filter is_non_comment_line (py_split NL bump_then_divide))))"
  "is_Exception (Exn ZeroDivisionError ''integer division or modulo by zero'')"
  "filter (\<lambda>line. \<not> is_import_line line) (py_split NL bump_then_divide)
     = py_split NL bump_then_divide"
  by code_simp+


text \<open>
  C9. When the last non-comment line is classified as an expression and the first
  attempt (the statements before it, then the evaluation of the line) raises an
  exception of class \<^verbatim>\<open>Exception\<close>, the whole remaining body is executed from its
  start, on the frame the failed attempt left. For the body \<open>print("a")\<close>,
  \<open>k = k + 1\<close>, \<open>1 // k\<close> with \<open>k = -1\<close> the statements run twice (the output is
  \<open>a\<close> twice and \<open>k\<close> ends at \<open>1\<close>) and the result reports \<open>success = True\<close>.
\<close>

theorem fallback_executes_body_again:
  "(filter is_non_comment_line other_lines \<noteq> []
      \<and> is_expression (py_strip (last (filter is_non_comment_line other_lines)))
      \<and> first_attempt py other_lines (filter is_non_comment_line other_lines)
            (py_strip (last (filter is_non_comment_line other_lines))) fr = (Some e, fr1)
      \<and> is_Exception e
    \<longrightarrow> run_other_code py other_lines fr = py_exec py (py_join [NL] other_lines) fr1)
   \<and> console_execute_code mini_python con_k bump_then_divide
        = (Inr \<lparr>stdout = ''a'' @ [NL] @ ''a'' @ [NL], stderr = [],
                locals_snapshot = VDict [(''k'', VInt 1)], success = True\<rparr>,
           con_k\<lparr>console_locals := [(''k'', 1)]\<rparr>)"
proof -
  have "filter is_non_comment_line other_lines \<noteq> []
      \<and> is_expression (py_strip (last (filter is_non_comment_line other_lines)))
      \<and> first_attempt py other_lines (filter is_non_comment_line other_lines)
            (py_strip (last (filter is_non_comment_line other_lines))) fr = (Some e, fr1)
      \<and> is_Exception e
    \<longrightarrow> run_other_code py other_lines fr = py_exec py (py_join [NL] other_lines) fr1"
    by (simp add: run_other_code_def Let_def)
  then show ?thesis using console_bump_then_divide by simp
qed

theorem fallback_executes_body_again_witness:
  "filter is_non_comment_line (py_split NL bump_then_divide) \<noteq> []
   \<and> is_expression (py_strip (last (filter is_non_comment_line (py_split NL bump_then_divide))))
   \<and> is_Exception (Exn ZeroDivisionError ''integer division or modulo by zero'')
   \<and> run_other_code mini_python (py_split NL bump_then_divide) (start_frame con_k)
        = py_exec mini_python (py_join [NL] (py_split NL bump_then_divide))
            \<lparr>frame_locals = [(''k'', 0)], stdout_buffer = ''a'' @ [NL], stderr_buffer = []\<rparr>
   \<and> py_exec mini_python (py_join [NL] (py_split NL bump_then_divide))
            \<lparr>frame_locals = [(''k'', 0)], stdout_buffer = ''a'' @ [NL], stderr_buffer = []\<rparr>
        = (None, \<lparr>frame_locals = [(''k'', 1)], stdout_buffer = ''a'' @ [NL] @ ''a'' @ [NL],
                   stderr_buffer = []\<rparr>)"
proof -
  have x: "py_exec mini_python (py_join [NL] (py_split NL bump_then_divide))
            \<lparr>frame_locals = [(''k'', 0)], stdout_buffer = ''a'' @ [NL], stderr_buffer = []\<rparr>
        = (None, \<lparr>frame_locals = [(''k'', 1)], stdout_buffer = ''a'' @ [NL] @ ''a'' @ [NL],
                   stderr_buffer = []\<rparr>)"
    by code_simp
  show ?thesis
    using fallback_executes_body_again
      [of "py_split NL bump_then_divide" mini_python "start_frame con_k"
          "Exn ZeroDivisionError ''integer division or modulo by zero''"
          "\<lparr>frame_locals = [(''k'', 0)], stdout_buffer = ''a'' @ [NL], stderr_buffer = []\<rparr>"]
      bump_then_divide_lines(1,2,3) first_attempt_bump_then_divide x
    by simp
qed

section \<open>The tool function on a denylisted submission\<close>







lemma get_state_other_key:
  "key \<noteq> REPL_STATE_KEY \<Longrightarrow> get_state_from_dict (sd(key := v)) = get_state_from_dict sd"
  by (simp add: get_state_from_dict_def)

lemma stored_security_level_other_key:
  "key \<noteq> REPL_SECURITY_LEVEL_KEY \<Longrightarrow>
     stored_security_level (sd(key := v)) = stored_security_level sd"
  by (simp add: stored_security_level_def)

lemma key_distinct_state_level:
  "REPL_STATE_KEY \<noteq> REPL_SECURITY_LEVEL_KEY"
  "REPL_PENDING_CODE_KEY \<noteq> REPL_SECURITY_LEVEL_KEY"
  "REPL_PENDING_CODE_KEY \<noteq> REPL_STATE_KEY"
  by (simp_all add: key_defs)


















section \<open>The iteration count\<close>






















end
